theory Spec2Isabelle
  imports Complex_Main "HOL-Library.Word" "HOL-Library.Signed_Division"
begin

unbundle bit_operations_syntax

section \<open>Data model\<close>

text \<open>
  The calibration structure \<^verbatim>\<open>bme280_calib_t\<close>, declared identically in
  \<^verbatim>\<open>bme280.c\<close> and \<^verbatim>\<open>bpbme280.c\<close>.  Every field is a machine word of the declared
  width; whether a field is signed shows in how it is widened: \<open>ucast\<close> for the unsigned
  fields, \<open>scast\<close> for the signed ones.
\<close>

record bme280_calib_t =
  dig_T1 :: "16 word"
  dig_T2 :: "16 word"
  dig_T3 :: "16 word"
  dig_P1 :: "16 word"
  dig_P2 :: "16 word"
  dig_P3 :: "16 word"
  dig_P4 :: "16 word"
  dig_P5 :: "16 word"
  dig_P6 :: "16 word"
  dig_P7 :: "16 word"
  dig_P8 :: "16 word"
  dig_P9 :: "16 word"
  dig_H1 :: "8 word"
  dig_H2 :: "16 word"
  dig_H3 :: "8 word"
  dig_H4 :: "16 word"
  dig_H5 :: "16 word"
  dig_H6 :: "8 word"
  t_fine :: "32 word"

section \<open>Register transport\<close>

text \<open>
  The driver reaches the sensor through \<^verbatim>\<open>write(2)\<close> and \<^verbatim>\<open>read(2)\<close> on an I2C
  character device.  Both system calls are outside the repository, so the device is a
  parameter of the model: a state \<open>'d\<close> with the two calls as functions on it.
  \<open>bus_write\<close> takes the bytes to send and returns the count the call reports;
  \<open>bus_read\<close> takes the requested length and returns the count the call reports
  together with the contents it left in the caller's buffer.  A buffer is the function from
  index to byte; the code only reads indices below the declared size of the array.
\<close>

type_synonym buffer = "nat \<Rightarrow> 8 word"

record 'd i2c_bus =
  bus_write :: "'d \<Rightarrow> 8 word list \<Rightarrow> int \<times> 'd"
  bus_read :: "'d \<Rightarrow> nat \<Rightarrow> (int \<times> buffer) \<times> 'd"

text \<open>The return value \<^verbatim>\<open>-1\<close> of the helpers is the error \<open>TransportError\<close>.\<close>

datatype error = TransportError

definition CALIB00 :: "8 word" where
  "CALIB00 = 0x88"

definition CALIB26 :: "8 word" where
  "CALIB26 = 0xE1"

definition i2c_read_regs ::
  "'d i2c_bus \<Rightarrow> 'd \<Rightarrow> 8 word \<Rightarrow> nat \<Rightarrow> (error + buffer) \<times> 'd" where
  "i2c_read_regs io d start_reg len =
    (case bus_write io d [start_reg] of
       (w, d1) \<Rightarrow>
         if w \<noteq> 1 then (Inl TransportError, d1)
         else (case bus_read io d1 len of
                 ((r, buf), d2) \<Rightarrow>
                   (if r = int len then Inr buf else Inl TransportError, d2)))"

section \<open>Calibration loader\<close>

text \<open>
  The macros \<^verbatim>\<open>U16_LE\<close> and \<^verbatim>\<open>S16_LE\<close>, applied to \<^verbatim>\<open>&buf[k]\<close>.  The operands
  are promoted to \<^verbatim>\<open>int\<close> (32 bits) before the shift and the bitwise or, and the result
  is truncated to 16 bits by the outer cast.
\<close>

definition U16_LE :: "buffer \<Rightarrow> nat \<Rightarrow> 16 word" where
  "U16_LE buf k =
    ucast ((ucast (buf k) :: 32 word) OR
           push_bit 8 (ucast (ucast (buf (k + 1)) :: 16 word) :: 32 word))"

definition S16_LE :: "buffer \<Rightarrow> nat \<Rightarrow> 16 word" where
  "S16_LE buf k =
    ucast ((ucast (buf k) :: 32 word) OR
           push_bit 8 (scast (ucast (buf (k + 1)) :: 16 word) :: 32 word))"

text \<open>\<^verbatim>\<open>read_calibration\<close> of \<^verbatim>\<open>bme280.c\<close>.\<close>

definition read_calibration ::
  "'d i2c_bus \<Rightarrow> 'd \<Rightarrow> bme280_calib_t \<Rightarrow> (error + unit) \<times> bme280_calib_t \<times> 'd" where
  "read_calibration io d c =
    (case i2c_read_regs io d CALIB00 26 of
       (Inl e, d1) \<Rightarrow> (Inl e, c, d1)
     | (Inr buf1, d1) \<Rightarrow>
         (case i2c_read_regs io d1 CALIB26 7 of
            (Inl e, d2) \<Rightarrow> (Inl e, c, d2)
          | (Inr buf2, d2) \<Rightarrow>
              (let c = c\<lparr>dig_T1 := U16_LE buf1 0\<rparr>;
                   c = c\<lparr>dig_T2 := S16_LE buf1 2\<rparr>;
                   c = c\<lparr>dig_T3 := S16_LE buf1 4\<rparr>;
                   c = c\<lparr>dig_P1 := U16_LE buf1 6\<rparr>;
                   c = c\<lparr>dig_P2 := S16_LE buf1 8\<rparr>;
                   c = c\<lparr>dig_P3 := S16_LE buf1 10\<rparr>;
                   c = c\<lparr>dig_P4 := S16_LE buf1 12\<rparr>;
                   c = c\<lparr>dig_P5 := S16_LE buf1 14\<rparr>;
                   c = c\<lparr>dig_P6 := S16_LE buf1 16\<rparr>;
                   c = c\<lparr>dig_P7 := S16_LE buf1 18\<rparr>;
                   c = c\<lparr>dig_P8 := S16_LE buf1 20\<rparr>;
                   c = c\<lparr>dig_P9 := S16_LE buf1 22\<rparr>;
                   c = c\<lparr>dig_H1 := buf1 24\<rparr>;
                   c = c\<lparr>dig_H2 := S16_LE buf2 0\<rparr>;
                   c = c\<lparr>dig_H3 := buf2 2\<rparr>;
                   h4 = (ucast (push_bit 4 (scast (ucast (buf2 3) :: 16 word) :: 32 word) OR
                                ((ucast (buf2 4) :: 32 word) AND 0x0F)) :: 16 word);
                   h5 = (ucast (push_bit 4 (scast (ucast (buf2 5) :: 16 word) :: 32 word) OR
                                signed_drop_bit 4 (ucast (buf2 4) :: 32 word)) :: 16 word);
                   c = c\<lparr>dig_H4 := h4\<rparr>;
                   c = c\<lparr>dig_H5 := h5\<rparr>;
                   c = c\<lparr>dig_H6 := buf2 6\<rparr>
               in (Inr (), c, d2))))"

text \<open>\<^verbatim>\<open>bme280_read_calib\<close> of \<^verbatim>\<open>bpbme280.c\<close>.\<close>

definition bme280_read_calib ::
  "'d i2c_bus \<Rightarrow> 'd \<Rightarrow> bme280_calib_t \<Rightarrow> (error + unit) \<times> bme280_calib_t \<times> 'd" where
  "bme280_read_calib io d c =
    (case i2c_read_regs io d CALIB00 26 of
       (Inl e, d1) \<Rightarrow> (Inl e, c, d1)
     | (Inr b1, d1) \<Rightarrow>
         (case i2c_read_regs io d1 CALIB26 7 of
            (Inl e, d2) \<Rightarrow> (Inl e, c, d2)
          | (Inr b2, d2) \<Rightarrow>
              (let c = c\<lparr>dig_T1 := U16_LE b1 0\<rparr>;
                   c = c\<lparr>dig_T2 := S16_LE b1 2\<rparr>;
                   c = c\<lparr>dig_T3 := S16_LE b1 4\<rparr>;
                   c = c\<lparr>dig_P1 := U16_LE b1 6\<rparr>;
                   c = c\<lparr>dig_P2 := S16_LE b1 8\<rparr>;
                   c = c\<lparr>dig_P3 := S16_LE b1 10\<rparr>;
                   c = c\<lparr>dig_P4 := S16_LE b1 12\<rparr>;
                   c = c\<lparr>dig_P5 := S16_LE b1 14\<rparr>;
                   c = c\<lparr>dig_P6 := S16_LE b1 16\<rparr>;
                   c = c\<lparr>dig_P7 := S16_LE b1 18\<rparr>;
                   c = c\<lparr>dig_P8 := S16_LE b1 20\<rparr>;
                   c = c\<lparr>dig_P9 := S16_LE b1 22\<rparr>;
                   c = c\<lparr>dig_H1 := b1 24\<rparr>;
                   c = c\<lparr>dig_H2 := S16_LE b2 0\<rparr>;
                   c = c\<lparr>dig_H3 := b2 2\<rparr>;
                   c = c\<lparr>dig_H4 :=
                         ucast (push_bit 4 (scast (ucast (b2 3) :: 16 word) :: 32 word) OR
                                ((ucast (b2 4) :: 32 word) AND 0x0F))\<rparr>;
                   c = c\<lparr>dig_H5 :=
                         ucast (push_bit 4 (scast (ucast (b2 5) :: 16 word) :: 32 word) OR
                                signed_drop_bit 4 (ucast (b2 4) :: 32 word))\<rparr>;
                   c = c\<lparr>dig_H6 := b2 6\<rparr>
               in (Inr (), c, d2))))"

section \<open>Machine arithmetic\<close>

text \<open>
  The arithmetic of the compensation formulas is that of the target (gcc, two's
  complement): \<open>+\<close>, \<open>-\<close>, \<open>*\<close> and \<^verbatim>\<open><<\<close> wrap around at the width of the
  operands, \<^verbatim>\<open>>>\<close> on a signed operand is the arithmetic shift
  \<^const>\<open>signed_drop_bit\<close>, and \<^verbatim>\<open>/\<close> truncates towards zero.  Two divisions have no
  result in C and stop the program where the processor traps: a division by zero, and the
  division of the most negative 64-bit value by -1, whose quotient is not a 64-bit value.
  Both are faults of the program and values of the model.
\<close>

datatype fault = DivisionByZero | DivisionOverflow

definition div_s64 :: "64 word \<Rightarrow> 64 word \<Rightarrow> fault + 64 word" where
  "div_s64 a b =
    (if b = 0 then Inl DivisionByZero
     else if sint a = - 9223372036854775808 \<and> sint b = - 1 then Inl DivisionOverflow
     else Inr (word_of_int (sint a sdiv sint b)))"

text \<open>
  A value of type \<^verbatim>\<open>double\<close> is represented by the real number it stands for.  A
  32-bit integer converts to \<^verbatim>\<open>double\<close> exactly.  A 64-bit integer of more than 53
  significant bits does not: the conversion rounds it to 53 significant bits, to the
  nearest value and to the even one of two nearest.  \<open>excess_bits a\<close> is the number of
  low bits that a non-negative \<open>a\<close> has beyond 53.  The final division of a
  \<^verbatim>\<open>double\<close> by a constant is taken as exact.
\<close>

function excess_bits :: "int \<Rightarrow> nat" where
  "excess_bits a = (if a < 9007199254740992 then 0 else Suc (excess_bits (a div 2)))"
  by pat_completeness auto
termination
  by (relation "measure nat") auto

definition round_to_double :: "int \<Rightarrow> int" where
  "round_to_double k =
    (let a = \<bar>k\<bar> in
     if a < 9007199254740992 then k
     else
       let e = excess_bits a;
           q = a div 2 ^ e;
           r = a mod 2 ^ e;
           m = (if 2 ^ e < 2 * r \<or> (2 * r = 2 ^ e \<and> odd q) then q + 1 else q)
       in sgn k * (m * 2 ^ e))"

definition double_of_s32 :: "32 word \<Rightarrow> real" where
  "double_of_s32 w = real_of_int (sint w)"

definition double_of_s64 :: "64 word \<Rightarrow> real" where
  "double_of_s64 w = real_of_int (round_to_double (sint w))"

section \<open>Compensation, \<^verbatim>\<open>bme280.c\<close>\<close>

text \<open>
  Each function takes the pointer \<^verbatim>\<open>c\<close> as the structure it points to and returns
  the structure as the call leaves it, next to the returned \<^verbatim>\<open>double\<close>.  Where
  \<^verbatim>\<open>compensate_P\<close> stops at a fault, the structure is the one the program has at that
  point.
\<close>

definition compensate_T :: "32 word \<Rightarrow> bme280_calib_t \<Rightarrow> real \<times> bme280_calib_t" where
  "compensate_T adc_T c =
    (let var1 = signed_drop_bit 11
                  ((signed_drop_bit 3 adc_T - push_bit 1 (ucast (dig_T1 c))) * scast (dig_T2 c));
         var2 = signed_drop_bit 14
                  (signed_drop_bit 12
                     ((signed_drop_bit 4 adc_T - ucast (dig_T1 c)) *
                      (signed_drop_bit 4 adc_T - ucast (dig_T1 c))) *
                   scast (dig_T3 c));
         c1 = c\<lparr>t_fine := var1 + var2\<rparr>;
         T = double_of_s32 (signed_drop_bit 8 (t_fine c1 * 5 + 128))
     in (T / 100, c1))"

definition compensate_P ::
  "32 word \<Rightarrow> bme280_calib_t \<Rightarrow> (fault + real) \<times> bme280_calib_t" where
  "compensate_P adc_P c =
    (let var1 = (scast (t_fine c) :: 64 word) - 128000;
         var2 = var1 * var1 * scast (dig_P6 c);
         var2 = var2 + push_bit 17 (var1 * scast (dig_P5 c));
         var2 = var2 + push_bit 35 (scast (dig_P4 c));
         var1 = signed_drop_bit 8 (var1 * var1 * scast (dig_P3 c)) +
                push_bit 12 (var1 * scast (dig_P2 c));
         var1 = signed_drop_bit 33 ((push_bit 47 1 + var1) * ucast (dig_P1 c))
     in if var1 = 0 then (Inr 0, c)
        else
          let p = (scast (1048576 - adc_P :: 32 word) :: 64 word)
          in case div_s64 ((push_bit 31 p - var2) * 3125) var1 of
               Inl e \<Rightarrow> (Inl e, c)
             | Inr p \<Rightarrow>
                 let var1 = signed_drop_bit 25
                              (scast (dig_P9 c) * signed_drop_bit 13 p * signed_drop_bit 13 p);
                     var2 = signed_drop_bit 19 (scast (dig_P8 c) * p);
                     p = signed_drop_bit 8 (p + var1 + var2) + push_bit 4 (scast (dig_P7 c))
                 in (Inr (double_of_s64 p / 25600), c))"

definition compensate_H :: "32 word \<Rightarrow> bme280_calib_t \<Rightarrow> real \<times> bme280_calib_t" where
  "compensate_H adc_H c =
    (let v_x1_u32r = t_fine c - 76800;
         v_x1_u32r =
           signed_drop_bit 15
             ((push_bit 14 adc_H - push_bit 20 (scast (dig_H4 c)) - scast (dig_H5 c) * v_x1_u32r)
              + 16384) *
           signed_drop_bit 14
             ((signed_drop_bit 10
                 (signed_drop_bit 10 (v_x1_u32r * scast (dig_H6 c)) *
                  (signed_drop_bit 11 (v_x1_u32r * ucast (dig_H3 c)) + 32768))
               + 2097152) * scast (dig_H2 c) + 8192);
         v_x1_u32r = v_x1_u32r -
           signed_drop_bit 4
             (signed_drop_bit 7 (signed_drop_bit 15 v_x1_u32r * signed_drop_bit 15 v_x1_u32r) *
              ucast (dig_H1 c));
         v_x1_u32r = (if v_x1_u32r <s 0 then 0 else v_x1_u32r);
         v_x1_u32r = (if 419430400 <s v_x1_u32r then 419430400 else v_x1_u32r);
         h = double_of_s32 (signed_drop_bit 12 v_x1_u32r)
     in (h / 1024, c))"

section \<open>Compensation, \<^verbatim>\<open>bpbme280.c\<close>\<close>

definition bme280_comp_T :: "32 word \<Rightarrow> bme280_calib_t \<Rightarrow> real \<times> bme280_calib_t" where
  "bme280_comp_T adc_T c =
    (let var1 = signed_drop_bit 11
                  ((signed_drop_bit 3 adc_T - push_bit 1 (ucast (dig_T1 c))) * scast (dig_T2 c));
         var2 = signed_drop_bit 14
                  (signed_drop_bit 12
                     ((signed_drop_bit 4 adc_T - ucast (dig_T1 c)) *
                      (signed_drop_bit 4 adc_T - ucast (dig_T1 c))) *
                   scast (dig_T3 c));
         c1 = c\<lparr>t_fine := var1 + var2\<rparr>;
         T = double_of_s32 (signed_drop_bit 8 (t_fine c1 * 5 + 128))
     in (T / 100, c1))"

definition bme280_comp_P ::
  "32 word \<Rightarrow> bme280_calib_t \<Rightarrow> (fault + real) \<times> bme280_calib_t" where
  "bme280_comp_P adc_P c =
    (let var1 = (scast (t_fine c) :: 64 word) - 128000;
         var2 = var1 * var1 * scast (dig_P6 c);
         var2 = var2 + push_bit 17 (var1 * scast (dig_P5 c));
         var2 = var2 + push_bit 35 (scast (dig_P4 c));
         var1 = signed_drop_bit 8 (var1 * var1 * scast (dig_P3 c)) +
                push_bit 12 (var1 * scast (dig_P2 c));
         var1 = signed_drop_bit 33 ((push_bit 47 1 + var1) * ucast (dig_P1 c))
     in if var1 = 0 then (Inr 0, c)
        else
          let p = (scast (1048576 - adc_P :: 32 word) :: 64 word)
          in case div_s64 ((push_bit 31 p - var2) * 3125) var1 of
               Inl e \<Rightarrow> (Inl e, c)
             | Inr p \<Rightarrow>
                 let var1 = signed_drop_bit 25
                              (scast (dig_P9 c) * signed_drop_bit 13 p * signed_drop_bit 13 p);
                     var2 = signed_drop_bit 19 (scast (dig_P8 c) * p);
                     p = signed_drop_bit 8 (p + var1 + var2) + push_bit 4 (scast (dig_P7 c))
                 in (Inr (double_of_s64 p / 25600), c))"

definition bme280_comp_H :: "32 word \<Rightarrow> bme280_calib_t \<Rightarrow> real \<times> bme280_calib_t" where
  "bme280_comp_H adc_H c =
    (let x = t_fine c - 76800;
         v = signed_drop_bit 15
               ((push_bit 14 adc_H - push_bit 20 (scast (dig_H4 c)) - scast (dig_H5 c) * x)
                + 16384) *
             signed_drop_bit 14
               ((signed_drop_bit 10
                   (signed_drop_bit 10 (x * scast (dig_H6 c)) *
                    (signed_drop_bit 11 (x * ucast (dig_H3 c)) + 32768))
                 + 2097152) * (scast (dig_H2 c) + 8192));
         v = v - signed_drop_bit 4
                   (signed_drop_bit 7 (signed_drop_bit 15 v * signed_drop_bit 15 v) *
                    ucast (dig_H1 c));
         v = (if v <s 0 then 0 else v);
         v = (if 419430400 <s v then 419430400 else v);
         h = double_of_s32 (signed_drop_bit 12 v) / 1024
     in (h, c))"

section \<open>Auxiliary definitions\<close>

text \<open>
  The values of the variables of \<^verbatim>\<open>compensate_P\<close> at four program points:
  \<^verbatim>\<open>var2\<close> and \<^verbatim>\<open>var1\<close> where the guard \<^verbatim>\<open>if (var1 == 0)\<close> tests them, the
  dividend \<^verbatim>\<open>((p << 31) - var2) * 3125\<close> of the division, and the final fixed-point
  \<^verbatim>\<open>p\<close> that the return statement converts.
\<close>

definition comp_P_var2 :: "bme280_calib_t \<Rightarrow> 64 word" where
  "comp_P_var2 c =
    (let var1 = (scast (t_fine c) :: 64 word) - 128000;
         var2 = var1 * var1 * scast (dig_P6 c);
         var2 = var2 + push_bit 17 (var1 * scast (dig_P5 c))
     in var2 + push_bit 35 (scast (dig_P4 c)))"

definition comp_P_var1 :: "bme280_calib_t \<Rightarrow> 64 word" where
  "comp_P_var1 c =
    (let var1 = (scast (t_fine c) :: 64 word) - 128000;
         var1 = signed_drop_bit 8 (var1 * var1 * scast (dig_P3 c)) +
                push_bit 12 (var1 * scast (dig_P2 c))
     in signed_drop_bit 33 ((push_bit 47 1 + var1) * ucast (dig_P1 c)))"

definition comp_P_dividend :: "32 word \<Rightarrow> bme280_calib_t \<Rightarrow> 64 word" where
  "comp_P_dividend adc_P c =
    (let p = (scast (1048576 - adc_P :: 32 word) :: 64 word)
     in (push_bit 31 p - comp_P_var2 c) * 3125)"

definition comp_P_q44 :: "32 word \<Rightarrow> bme280_calib_t \<Rightarrow> 64 word" where
  "comp_P_q44 adc_P c =
    (let p = word_of_int (sint (comp_P_dividend adc_P c) sdiv sint (comp_P_var1 c));
         var1 = signed_drop_bit 25
                  (scast (dig_P9 c) * signed_drop_bit 13 p * signed_drop_bit 13 p);
         var2 = signed_drop_bit 19 (scast (dig_P8 c) * p)
     in signed_drop_bit 8 (p + var1 + var2) + push_bit 4 (scast (dig_P7 c)))"

text \<open>
  The fine temperatures that \<^verbatim>\<open>compensate_T\<close> can store: \<^verbatim>\<open>var1\<close> is a 32-bit value
  shifted right by 11, at least -1048576 and below 1048576, and \<^verbatim>\<open>var2\<close> one shifted
  right by 14, at least -131072 and below 131072; \<^verbatim>\<open>t_fine\<close> is their sum.
\<close>

definition t_fine_storable :: "32 word \<Rightarrow> bool" where
  "t_fine_storable t \<longleftrightarrow> - 1179648 \<le> sint t \<and> sint t < 1179648"


definition overflow_calib_adc20 :: bme280_calib_t where
  "overflow_calib_adc20 =
    \<lparr>dig_T1 = 27504, dig_T2 = 26435, dig_T3 = - 1000,
     dig_P1 = 1, dig_P2 = 32687, dig_P3 = - 2162, dig_P4 = 28961, dig_P5 = 0,
     dig_P6 = - 32517, dig_P7 = 15500, dig_P8 = - 14600, dig_P9 = 6000,
     dig_H1 = 75, dig_H2 = 362, dig_H3 = 0, dig_H4 = 331, dig_H5 = 0, dig_H6 = 30,
     t_fine = 16970752\<rparr>"

text \<open>
  The synthetic calibration set of the end-to-end scenario, with \<^verbatim>\<open>t_fine\<close> not yet
  computed.
\<close>

definition ref_calib :: bme280_calib_t where
  "ref_calib =
    \<lparr>dig_T1 = 27504, dig_T2 = 26435, dig_T3 = - 1000,
     dig_P1 = 36477, dig_P2 = - 10685, dig_P3 = 3024, dig_P4 = 2855, dig_P5 = 140,
     dig_P6 = - 7, dig_P7 = 15500, dig_P8 = - 14600, dig_P9 = 6000,
     dig_H1 = 75, dig_H2 = 362, dig_H3 = 0, dig_H4 = 331, dig_H5 = 0, dig_H6 = 30,
     t_fine = 0\<rparr>"

text \<open>
  The little-endian encoding of a 16-bit field as the specification describes it for the
  round trip, low byte first.  The repository has no encoder; this is the inverse the
  specification asks the decoder to have.
\<close>

definition encode_le16 :: "16 word \<Rightarrow> 8 word \<times> 8 word" where
  "encode_le16 w = (ucast w, ucast (drop_bit 8 w))"

text \<open>
  A simulated sensor, to run the loader on.  Its register at address \<open>a\<close> holds \<open>a\<close>,
  except 0xE4 to 0xE6, which hold the bytes of the H4/H5 example.  The device state is the
  register pointer and the number of reads served; a write of one byte sets the pointer;
  the first \<open>good\<close> reads deliver the bytes asked for, every later read comes back one
  byte short.
\<close>

definition sensor_regs :: "8 word \<Rightarrow> 8 word" where
  "sensor_regs a =
    (if a = 0xE4 then 0x1E else if a = 0xE5 then 0x3F else if a = 0xE6 then 0x02 else a)"

definition sensor_bus :: "nat \<Rightarrow> (8 word \<times> nat) i2c_bus" where
  "sensor_bus good =
    \<lparr>bus_write = (\<lambda>(ptr, n) bs.
        case bs of [] \<Rightarrow> (0, (ptr, n)) | r # _ \<Rightarrow> (int (length bs), (r, n))),
     bus_read = (\<lambda>(ptr, n) len.
        if n < good
        then ((int len, \<lambda>i. sensor_regs (ptr + of_nat i)), (ptr + of_nat len, Suc n))
        else ((int len - 1, \<lambda>i. sensor_regs (ptr + of_nat i)),
              (ptr + of_nat len - 1, Suc n)))\<rparr>"

text \<open>
  The temperature formula read in unbounded integers: \<open>comp_T_tfine\<close> is the sum
  \<^verbatim>\<open>var1 + var2\<close> of \<^verbatim>\<open>compensate_T\<close> with \<^verbatim>\<open>>>\<close> as the division that rounds
  down, and \<open>comp_T_fits\<close> says that every signed 32-bit product and sum of the function
  has its exact value within the range of \<^verbatim>\<open>int32_t\<close>, so that no operation overflows.
  The two differences and the doubling of T1 are not listed: a 32-bit value divided by 8 or
  16, less a 17-bit value, is always in range.
\<close>

definition fits_s32 :: "int \<Rightarrow> bool" where
  "fits_s32 k \<longleftrightarrow> - 2147483648 \<le> k \<and> k < 2147483648"

definition comp_T_tfine :: "int \<Rightarrow> int \<Rightarrow> int \<Rightarrow> int \<Rightarrow> int" where
  "comp_T_tfine x T1 T2 T3 =
     ((x div 8 - 2 * T1) * T2) div 2048 +
     ((((x div 16 - T1) * (x div 16 - T1)) div 4096) * T3) div 16384"

definition comp_T_fits :: "32 word \<Rightarrow> bme280_calib_t \<Rightarrow> bool" where
  "comp_T_fits adc_T c \<longleftrightarrow>
    (let x = sint adc_T; T1 = uint (dig_T1 c); T2 = sint (dig_T2 c); T3 = sint (dig_T3 c)
     in fits_s32 ((x div 8 - 2 * T1) * T2) \<and>
        fits_s32 ((x div 16 - T1) * (x div 16 - T1)) \<and>
        fits_s32 ((((x div 16 - T1) * (x div 16 - T1)) div 4096) * T3) \<and>
        fits_s32 (comp_T_tfine x T1 T2 T3) \<and>
        fits_s32 (comp_T_tfine x T1 T2 T3 * 5) \<and>
        fits_s32 (comp_T_tfine x T1 T2 T3 * 5 + 128))"

definition fits_s64 :: "int \<Rightarrow> bool" where
  "fits_s64 k \<longleftrightarrow> - 9223372036854775808 \<le> k \<and> k < 9223372036854775808"

text \<open>
  The index of H1 in block A as the specification gives it, the 26th byte, and as the
  comments of both source files give it, register 0xA1, the last of 0x88 to 0xA1.
\<close>

definition H1_index_spec :: nat where
  "H1_index_spec = 25"

section \<open>Pressure: the guard on the denominator\<close>

lemma compensate_P_unfold:
  "compensate_P adc_P c =
     (if comp_P_var1 c = 0 then (Inr 0, c)
      else if sint (comp_P_dividend adc_P c) = - 9223372036854775808 \<and>
              sint (comp_P_var1 c) = - 1
      then (Inl DivisionOverflow, c)
      else (Inr (double_of_s64 (comp_P_q44 adc_P c) / 25600), c))"
  by (simp add: compensate_P_def comp_P_var1_def comp_P_var2_def comp_P_dividend_def
      comp_P_q44_def div_s64_def Let_def)

section \<open>Temperature: the reference reading\<close>

text \<open>
  Claim C4.  With T1 = 27504, T2 = 26435, T3 = -1000 and the raw value 519888,
  \<^verbatim>\<open>compensate_T\<close> stores the fine temperature 128422 and returns 2508 / 100, that is
  25.08 degrees Celsius.
\<close>

theorem compensate_T_reference:
  "compensate_T 519888 (c\<lparr>dig_T1 := 27504, dig_T2 := 26435, dig_T3 := - 1000\<rparr>) =
     (2508 / 100, c\<lparr>dig_T1 := 27504, dig_T2 := 26435, dig_T3 := - 1000, t_fine := 128422\<rparr>)"
  by (simp add: compensate_T_def Let_def double_of_s32_def)

section \<open>Humidity: the clamp\<close>

lemma clamp_bounds:
  fixes v :: "32 word"
  shows "0 \<le> sint (if 419430400 <s (if v <s 0 then 0 else v) then 419430400
                    else (if v <s 0 then 0 else v)) \<and>
         sint (if 419430400 <s (if v <s 0 then 0 else v) then 419430400
               else (if v <s 0 then 0 else v)) \<le> 419430400"
  by (simp add: word_sless_alt)

lemma sint_shift12_bounds:
  fixes v :: "32 word"
  assumes "0 \<le> sint v" and "sint v \<le> 419430400"
  shows "0 \<le> sint (signed_drop_bit 12 v) \<and> sint (signed_drop_bit 12 v) \<le> 102400"
proof -
  have "sint (signed_drop_bit 12 v) = sint v div 4096"
    by (simp add: sint_signed_drop_bit_eq drop_bit_eq_div)
  moreover have "0 \<le> sint v div 4096"
    using assms(1) by (simp add: pos_imp_zdiv_nonneg_iff)
  moreover have "sint v div 4096 \<le> 419430400 div 4096"
    using assms(2) by (rule zdiv_mono1) simp
  ultimately show ?thesis by simp
qed

lemma compensate_H_clamped:
  "\<exists>v :: 32 word. 0 \<le> sint v \<and> sint v \<le> 419430400 \<and>
     fst (compensate_H adc_H c) = double_of_s32 (signed_drop_bit 12 v) / 1024"
proof -
  obtain v :: "32 word" where
    "fst (compensate_H adc_H c) =
       double_of_s32 (signed_drop_bit 12
         (if 419430400 <s (if v <s 0 then 0 else v) then 419430400
          else (if v <s 0 then 0 else v))) / 1024"
    unfolding compensate_H_def Let_def fst_conv by blast
  moreover define w where
    "w = (if 419430400 <s (if v <s 0 then 0 else v) then 419430400
          else (if v <s 0 then 0 else v))"
  ultimately have "fst (compensate_H adc_H c) = double_of_s32 (signed_drop_bit 12 w) / 1024"
    by (simp only:)
  moreover have "0 \<le> sint w \<and> sint w \<le> 419430400"
    unfolding w_def by (rule clamp_bounds)
  ultimately show ?thesis
    by blast
qed

lemma compensate_H_scaled:
  "\<exists>k. 0 \<le> k \<and> k \<le> 102400 \<and> fst (compensate_H adc_H c) = real_of_int k / 1024"
proof -
  obtain v :: "32 word" where v: "0 \<le> sint v" "sint v \<le> 419430400"
    and r: "fst (compensate_H adc_H c) = double_of_s32 (signed_drop_bit 12 v) / 1024"
    using compensate_H_clamped by blast
  define k where "k = sint (signed_drop_bit 12 v)"
  have "fst (compensate_H adc_H c) = real_of_int k / 1024"
    unfolding r double_of_s32_def k_def ..
  moreover have "0 \<le> k \<and> k \<le> 102400"
    unfolding k_def using v by (rule sint_shift12_bounds)
  ultimately show ?thesis
    by blast
qed

text \<open>
  Claim C2.  For every calibration set, fine temperature and raw humidity value, the value
  returned by \<^verbatim>\<open>compensate_H\<close> is the scaling (shift right by 12, division by 1024)
  of a 32-bit intermediate within 0 and 419430400, and it lies between 0.0 and 400.0.
\<close>

theorem compensate_H_range:
  "(\<exists>v :: 32 word. 0 \<le> sint v \<and> sint v \<le> 419430400 \<and>
      fst (compensate_H adc_H c) = double_of_s32 (signed_drop_bit 12 v) / 1024) \<and>
   0 \<le> fst (compensate_H adc_H c) \<and> fst (compensate_H adc_H c) \<le> 400"
proof -
  obtain k where "0 \<le> k" "k \<le> 102400" "fst (compensate_H adc_H c) = real_of_int k / 1024"
    using compensate_H_scaled by blast
  then have "0 \<le> fst (compensate_H adc_H c) \<and> fst (compensate_H adc_H c) \<le> 400"
    by simp
  with compensate_H_clamped [of adc_H c] show ?thesis
    by blast
qed

text \<open>
  The clamp bounds the intermediate by 419430400, whose scaling is 100.0: the bound of the
  claim is not reached.
\<close>

lemma compensate_H_percent:
  "fst (compensate_H adc_H c) \<le> 100"
proof -
  obtain k where "0 \<le> k" "k \<le> 102400" "fst (compensate_H adc_H c) = real_of_int k / 1024"
    using compensate_H_scaled by blast
  then show ?thesis by simp
qed

section \<open>The calibration structure across the three steps\<close>

text \<open>
  Claim C10.  \<^verbatim>\<open>compensate_P\<close> and \<^verbatim>\<open>compensate_H\<close> leave the calibration structure as
  they found it, all sixteen coefficients and \<^verbatim>\<open>t_fine\<close>, on every input, also where
  \<^verbatim>\<open>compensate_P\<close> stops at a fault; \<^verbatim>\<open>compensate_T\<close> changes at most the field
  \<^verbatim>\<open>t_fine\<close>.
\<close>

theorem compensate_frame:
  "snd (compensate_P adc_P c) = c \<and>
   snd (compensate_H adc_H c) = c \<and>
   snd (compensate_T adc_T c) = c\<lparr>t_fine := t_fine (snd (compensate_T adc_T c))\<rparr>"
  by (simp add: compensate_P_unfold compensate_H_def compensate_T_def Let_def)

section \<open>The two copies of the compensation code\<close>

lemma comp_T_same: "bme280_comp_T adc_T c = compensate_T adc_T c"
  by (simp add: bme280_comp_T_def compensate_T_def)

lemma comp_P_same: "bme280_comp_P adc_P c = compensate_P adc_P c"
  by (simp add: bme280_comp_P_def compensate_P_def)

text \<open>
  Claim C1.  The temperature and pressure functions of the two files agree on every input
  (\<open>comp_T_same\<close>, \<open>comp_P_same\<close>).  The humidity functions do not: in
  \<^verbatim>\<open>bpbme280.c\<close> the rounding constant 8192 is added to \<^verbatim>\<open>dig_H2\<close> before the
  multiplication, in \<^verbatim>\<open>bme280.c\<close> it is added to the product.  On the end-to-end
  scenario (raw humidity 30000, fine temperature 128422) \<^verbatim>\<open>compensate_H\<close> returns
  12663 / 256 (49.46 percent) and \<^verbatim>\<open>bme280_comp_H\<close> returns 76221 / 1024 (74.43 percent).
\<close>

theorem comp_H_diverges:
  "fst (compensate_H 30000 (ref_calib\<lparr>t_fine := 128422\<rparr>)) = 12663 / 256 \<and>
   fst (bme280_comp_H 30000 (ref_calib\<lparr>t_fine := 128422\<rparr>)) = 76221 / 1024 \<and>
   fst (compensate_H 30000 (ref_calib\<lparr>t_fine := 128422\<rparr>)) \<noteq>
   fst (bme280_comp_H 30000 (ref_calib\<lparr>t_fine := 128422\<rparr>))"
  by (simp add: compensate_H_def bme280_comp_H_def ref_calib_def Let_def double_of_s32_def
      word_sless_alt)

text \<open>
  In the scenario above the product \<^verbatim>\<open>2145536 * (362 + 8192)\<close> of \<^verbatim>\<open>bpbme280.c\<close>
  leaves the 32-bit range and wraps around.  The two functions also differ where every
  intermediate value of both stays within 32 bits: with H3 = 255, H6 = -128 and the fine
  temperature 338944 the common factor is 4096, and the two files multiply it to
  \<^verbatim>\<open>4096 * 362 + 8192\<close> and to \<^verbatim>\<open>4096 * (362 + 8192)\<close>.
\<close>

lemma comp_H_diverges_in_range:
  "fst (compensate_H 30000 (ref_calib\<lparr>dig_H3 := 255, dig_H6 := - 128, t_fine := 338944\<rparr>)) =
     97 / 1024 \<and>
   fst (bme280_comp_H 30000 (ref_calib\<lparr>dig_H3 := 255, dig_H6 := - 128, t_fine := 338944\<rparr>)) =
     575 / 256"
  by (simp add: compensate_H_def bme280_comp_H_def ref_calib_def Let_def double_of_s32_def
      word_sless_alt)

section \<open>The loader on its two paths\<close>

lemma error_eq: "(e :: error) = TransportError"
  by (cases e) simp

lemma i2c_read_regs_error_iff:
  "fst (i2c_read_regs io d reg len) = Inl TransportError \<longleftrightarrow>
     fst (bus_write io d [reg]) \<noteq> 1 \<or>
     fst (fst (bus_read io (snd (bus_write io d [reg])) len)) \<noteq> int len"
  by (auto simp add: i2c_read_regs_def split: prod.splits)

lemma read_calibration_fields:
  assumes "i2c_read_regs io d CALIB00 26 = (Inr buf1, d1)"
    and "i2c_read_regs io d1 CALIB26 7 = (Inr buf2, d2)"
  shows "read_calibration io d c =
    (Inr (),
     \<lparr>dig_T1 = U16_LE buf1 0, dig_T2 = S16_LE buf1 2, dig_T3 = S16_LE buf1 4,
      dig_P1 = U16_LE buf1 6, dig_P2 = S16_LE buf1 8, dig_P3 = S16_LE buf1 10,
      dig_P4 = S16_LE buf1 12, dig_P5 = S16_LE buf1 14, dig_P6 = S16_LE buf1 16,
      dig_P7 = S16_LE buf1 18, dig_P8 = S16_LE buf1 20, dig_P9 = S16_LE buf1 22,
      dig_H1 = buf1 24, dig_H2 = S16_LE buf2 0, dig_H3 = buf2 2,
      dig_H4 = ucast (push_bit 4 (scast (ucast (buf2 3) :: 16 word) :: 32 word) OR
                      ((ucast (buf2 4) :: 32 word) AND 0x0F)),
      dig_H5 = ucast (push_bit 4 (scast (ucast (buf2 5) :: 16 word) :: 32 word) OR
                      signed_drop_bit 4 (ucast (buf2 4) :: 32 word)),
      dig_H6 = buf2 6, t_fine = t_fine c\<rparr>,
     d2)"
  using assms by (simp add: read_calibration_def Let_def)

lemma bme280_read_calib_same: "bme280_read_calib io d c = read_calibration io d c"
  by (simp add: bme280_read_calib_def read_calibration_def Let_def
      split: prod.splits sum.splits)

lemma sensor_block_A:
  "i2c_read_regs (sensor_bus 2) (0, 0) CALIB00 26 =
     (Inr (\<lambda>i. sensor_regs (0x88 + of_nat i)), (0xA2, 1))"
  by (simp add: i2c_read_regs_def sensor_bus_def CALIB00_def)

lemma sensor_block_B:
  "i2c_read_regs (sensor_bus 2) (0xA2, 1) CALIB26 7 =
     (Inr (\<lambda>i. sensor_regs (0xE1 + of_nat i)), (0xE8, 2))"
  by (simp add: i2c_read_regs_def sensor_bus_def CALIB26_def)

lemma sensor_block_A_short:
  "i2c_read_regs (sensor_bus 0) (0, 0) CALIB00 26 = (Inl TransportError, (0xA1, 1))"
  by (simp add: i2c_read_regs_def sensor_bus_def CALIB00_def)

lemma sensor_block_A_then_short:
  "i2c_read_regs (sensor_bus 1) (0, 0) CALIB00 26 =
     (Inr (\<lambda>i. sensor_regs (0x88 + of_nat i)), (0xA2, 1))"
  "i2c_read_regs (sensor_bus 1) (0xA2, 1) CALIB26 7 = (Inl TransportError, (0xE7, 2))"
  by (simp_all add: i2c_read_regs_def sensor_bus_def CALIB00_def CALIB26_def)

text \<open>
  Claim C6.  When the read of block A or the read of block B fails (the write of the
  register address or the read itself reports another count than asked for, see
  \<open>i2c_read_regs_error_iff\<close>), \<^verbatim>\<open>read_calibration\<close> returns the error and the
  calibration structure is the one it was given: no field has been written.
\<close>

theorem read_calibration_atomic:
  assumes "fst (i2c_read_regs io d CALIB00 26) = Inl TransportError \<or>
           fst (i2c_read_regs io (snd (i2c_read_regs io d CALIB00 26)) CALIB26 7) =
             Inl TransportError"
  shows "fst (read_calibration io d c) = Inl TransportError \<and>
         fst (snd (read_calibration io d c)) = c"
  using assms
  by (auto simp add: read_calibration_def error_eq [of "_ :: error"]
      split: prod.splits sum.splits)

theorem read_calibration_atomic_witness:
  "fst (i2c_read_regs (sensor_bus 0) (0, 0) CALIB00 26) = Inl TransportError \<and>
   fst (read_calibration (sensor_bus 0) (0, 0) ref_calib) = Inl TransportError \<and>
   fst (snd (read_calibration (sensor_bus 0) (0, 0) ref_calib)) = ref_calib \<and>
   fst (i2c_read_regs (sensor_bus 1)
     (snd (i2c_read_regs (sensor_bus 1) (0, 0) CALIB00 26)) CALIB26 7) = Inl TransportError \<and>
   fst (read_calibration (sensor_bus 1) (0, 0) ref_calib) = Inl TransportError \<and>
   fst (snd (read_calibration (sensor_bus 1) (0, 0) ref_calib)) = ref_calib"
proof -
  have a: "fst (i2c_read_regs (sensor_bus 0) (0, 0) CALIB00 26) = Inl TransportError"
    by (simp only: sensor_block_A_short fst_conv)
  have b: "fst (i2c_read_regs (sensor_bus 1)
      (snd (i2c_read_regs (sensor_bus 1) (0, 0) CALIB00 26)) CALIB26 7) = Inl TransportError"
    by (simp only: sensor_block_A_then_short fst_conv snd_conv)
  from a b read_calibration_atomic [OF disjI1 [OF a], of ref_calib]
    read_calibration_atomic [OF disjI2 [OF b], of ref_calib]
  show ?thesis by blast
qed

section \<open>Decoding the packed fields H4 and H5\<close>

text \<open>
  Claim C5.  When both reads succeed and block B holds 0x1E, 0x3F, 0x02 at indices 3, 4, 5,
  the loader succeeds and stores H4 = 495 and H5 = 35.
\<close>

theorem read_calibration_H4_H5_example:
  assumes "i2c_read_regs io d CALIB00 26 = (Inr buf1, d1)"
    and "i2c_read_regs io d1 CALIB26 7 = (Inr buf2, d2)"
    and "buf2 3 = 0x1E" and "buf2 4 = 0x3F" and "buf2 5 = 0x02"
  shows "fst (read_calibration io d c) = Inr () \<and>
         sint (dig_H4 (fst (snd (read_calibration io d c)))) = 495 \<and>
         sint (dig_H5 (fst (snd (read_calibration io d c)))) = 35"
  unfolding read_calibration_fields [OF assms(1,2)]
  by (simp add: assms(3-5))

theorem read_calibration_H4_H5_example_witness:
  "fst (read_calibration (sensor_bus 2) (0, 0) ref_calib) = Inr () \<and>
   sint (dig_H4 (fst (snd (read_calibration (sensor_bus 2) (0, 0) ref_calib)))) = 495 \<and>
   sint (dig_H5 (fst (snd (read_calibration (sensor_bus 2) (0, 0) ref_calib)))) = 35"
  by (rule read_calibration_H4_H5_example [OF sensor_block_A sensor_block_B])
    (simp_all add: sensor_regs_def)

lemma H4_twelve_bits:
  "take_bit 12 (ucast (push_bit 4 (scast (ucast (b3 :: 8 word) :: 16 word) :: 32 word) OR
                       ((ucast (b4 :: 8 word) :: 32 word) AND 0x0F)) :: 16 word) =
   ucast (push_bit 4 (scast (ucast b3 :: 16 word) :: 32 word) OR
          ((ucast b4 :: 32 word) AND 0x0F))"
  by (rule bit_word_eqI) (auto simp add: bit_simps dest: bit_imp_le_length)

lemma H5_twelve_bits:
  "take_bit 12 (ucast (push_bit 4 (scast (ucast (b5 :: 8 word) :: 16 word) :: 32 word) OR
                       signed_drop_bit 4 (ucast (b4 :: 8 word) :: 32 word)) :: 16 word) =
   ucast (push_bit 4 (scast (ucast b5 :: 16 word) :: 32 word) OR
          signed_drop_bit 4 (ucast b4 :: 32 word))"
  by (rule bit_word_eqI) (auto simp add: bit_simps dest: bit_imp_le_length)

lemma sint_twelve_bits:
  fixes w :: "16 word"
  assumes "take_bit 12 w = w"
  shows "0 \<le> sint w \<and> sint w \<le> 4095"
proof -
  have "uint w = take_bit 12 (uint w)"
    using assms by (metis unsigned_take_bit_eq)
  then have "uint w < 2 ^ 12"
    by (metis take_bit_int_less_exp)
  then have u: "uint w < 4096"
    by simp
  have "- (2 ^ 15) \<le> uint w"
    by (rule order_trans [of _ 0]) simp_all
  moreover have "uint w < 2 ^ 15"
    using u by simp
  ultimately have "signed_take_bit 15 (uint w) = uint w"
    by (rule signed_take_bit_int_eq_self)
  then have "sint w = uint w"
    by (simp add: sint_uint)
  then show ?thesis
    using u by simp
qed

text \<open>
  Claim C9.  Whatever bytes block B holds, the H4 and H5 that either loader stores are
  between 0 and 4095 when read as signed 16-bit values: the top four bits are zero and
  the value is never negative.
\<close>

theorem read_calibration_H4_H5_range:
  assumes "i2c_read_regs io d CALIB00 26 = (Inr buf1, d1)"
    and "i2c_read_regs io d1 CALIB26 7 = (Inr buf2, d2)"
  shows "0 \<le> sint (dig_H4 (fst (snd (read_calibration io d c)))) \<and>
         sint (dig_H4 (fst (snd (read_calibration io d c)))) \<le> 4095 \<and>
         0 \<le> sint (dig_H5 (fst (snd (read_calibration io d c)))) \<and>
         sint (dig_H5 (fst (snd (read_calibration io d c)))) \<le> 4095 \<and>
         0 \<le> sint (dig_H4 (fst (snd (bme280_read_calib io d c)))) \<and>
         sint (dig_H4 (fst (snd (bme280_read_calib io d c)))) \<le> 4095 \<and>
         0 \<le> sint (dig_H5 (fst (snd (bme280_read_calib io d c)))) \<and>
         sint (dig_H5 (fst (snd (bme280_read_calib io d c)))) \<le> 4095"
  using sint_twelve_bits [OF H4_twelve_bits, of "buf2 3" "buf2 4"]
    sint_twelve_bits [OF H5_twelve_bits, of "buf2 5" "buf2 4"]
  unfolding bme280_read_calib_same read_calibration_fields [OF assms]
  by simp

theorem read_calibration_H4_H5_range_witness:
  "0 \<le> sint (dig_H4 (fst (snd (read_calibration (sensor_bus 2) (0, 0) ref_calib)))) \<and>
   sint (dig_H4 (fst (snd (read_calibration (sensor_bus 2) (0, 0) ref_calib)))) \<le> 4095 \<and>
   0 \<le> sint (dig_H5 (fst (snd (read_calibration (sensor_bus 2) (0, 0) ref_calib)))) \<and>
   sint (dig_H5 (fst (snd (read_calibration (sensor_bus 2) (0, 0) ref_calib)))) \<le> 4095 \<and>
   0 \<le> sint (dig_H4 (fst (snd (bme280_read_calib (sensor_bus 2) (0, 0) ref_calib)))) \<and>
   sint (dig_H4 (fst (snd (bme280_read_calib (sensor_bus 2) (0, 0) ref_calib)))) \<le> 4095 \<and>
   0 \<le> sint (dig_H5 (fst (snd (bme280_read_calib (sensor_bus 2) (0, 0) ref_calib)))) \<and>
   sint (dig_H5 (fst (snd (bme280_read_calib (sensor_bus 2) (0, 0) ref_calib)))) \<le> 4095"
  by (rule read_calibration_H4_H5_range [OF sensor_block_A sensor_block_B])

section \<open>Decoding the little-endian fields\<close>

lemma U16_LE_low: "ucast (U16_LE buf k) = buf k"
  unfolding U16_LE_def
  by (rule bit_word_eqI) (auto simp add: bit_simps dest: bit_imp_le_length)

lemma U16_LE_high: "ucast (drop_bit 8 (U16_LE buf k)) = buf (k + 1)"
  unfolding U16_LE_def
  by (rule bit_word_eqI) (auto simp add: bit_simps dest: bit_imp_le_length)

lemma S16_LE_low: "ucast (S16_LE buf k) = buf k"
  unfolding S16_LE_def
  by (rule bit_word_eqI) (auto simp add: bit_simps dest: bit_imp_le_length)

lemma S16_LE_high: "ucast (drop_bit 8 (S16_LE buf k)) = buf (k + 1)"
  unfolding S16_LE_def
  by (rule bit_word_eqI) (auto simp add: bit_simps dest: bit_imp_le_length)

lemma encode_U16_LE: "encode_le16 (U16_LE buf k) = (buf k, buf (k + 1))"
  by (simp add: encode_le16_def U16_LE_low U16_LE_high)

lemma encode_S16_LE: "encode_le16 (S16_LE buf k) = (buf k, buf (k + 1))"
  by (simp add: encode_le16_def S16_LE_low S16_LE_high)

lemma read_calibration_round_trip_fields:
  assumes "i2c_read_regs io d CALIB00 26 = (Inr buf1, d1)"
    and "i2c_read_regs io d1 CALIB26 7 = (Inr buf2, d2)"
    and "c1 = fst (snd (read_calibration io d c))"
  shows "encode_le16 (dig_T1 c1) = (buf1 0, buf1 1) \<and>
         encode_le16 (dig_T2 c1) = (buf1 2, buf1 3) \<and>
         encode_le16 (dig_T3 c1) = (buf1 4, buf1 5) \<and>
         encode_le16 (dig_P1 c1) = (buf1 6, buf1 7) \<and>
         encode_le16 (dig_P2 c1) = (buf1 8, buf1 9) \<and>
         encode_le16 (dig_P3 c1) = (buf1 10, buf1 11) \<and>
         encode_le16 (dig_P4 c1) = (buf1 12, buf1 13) \<and>
         encode_le16 (dig_P5 c1) = (buf1 14, buf1 15) \<and>
         encode_le16 (dig_P6 c1) = (buf1 16, buf1 17) \<and>
         encode_le16 (dig_P7 c1) = (buf1 18, buf1 19) \<and>
         encode_le16 (dig_P8 c1) = (buf1 20, buf1 21) \<and>
         encode_le16 (dig_P9 c1) = (buf1 22, buf1 23) \<and>
         encode_le16 (dig_H2 c1) = (buf2 0, buf2 1) \<and>
         dig_H3 c1 = buf2 2 \<and>
         dig_H6 c1 = buf2 6"
  unfolding assms(3) read_calibration_fields [OF assms(1,2)]
  by (simp add: encode_U16_LE encode_S16_LE)

text \<open>
  H1 is another matter.  Both loaders store byte 24 of block A, and byte 25, the byte the
  specification and the loaders' own comments name, has no influence on what is loaded.
\<close>

lemma read_calibration_H1_source:
  assumes "i2c_read_regs io d CALIB00 26 = (Inr buf1, d1)"
    and "i2c_read_regs io d1 CALIB26 7 = (Inr buf2, d2)"
  shows "dig_H1 (fst (snd (read_calibration io d c))) = buf1 24"
    and "dig_H1 (fst (snd (bme280_read_calib io d c))) = buf1 24"
  unfolding bme280_read_calib_same read_calibration_fields [OF assms]
  by simp_all

lemma read_calibration_ignores_byte_25:
  assumes "i2c_read_regs io d CALIB00 26 = (Inr buf1, d1)"
    and "i2c_read_regs io d1 CALIB26 7 = (Inr buf2, d2)"
    and "i2c_read_regs io' d' CALIB00 26 = (Inr (buf1(25 := b)), d1')"
    and "i2c_read_regs io' d1' CALIB26 7 = (Inr buf2, d2')"
  shows "fst (snd (read_calibration io' d' c)) = fst (snd (read_calibration io d c))"
  unfolding read_calibration_fields [OF assms(1,2)] read_calibration_fields [OF assms(3,4)]
  by (simp add: U16_LE_def S16_LE_def)

text \<open>
  Claim C8.  Encoding each decoded 16-bit field T1 to T3, P1 to P9 and H2 as a
  little-endian byte pair gives back the two bytes it was read from, and H3 and H6 are the
  bytes they were read from (\<open>read_calibration_round_trip_fields\<close>).  H1 is not: on a
  sensor whose registers 0xA0 and 0xA1 hold 0xA0 and 0xA1, the block read has 0xA1 at the
  index of H1, the loader succeeds and stores 0xA0, the byte before it.
\<close>

theorem read_calibration_H1_offset:
  "fst (i2c_read_regs (sensor_bus 2) (0, 0) CALIB00 26) =
     Inr (\<lambda>i. sensor_regs (0x88 + of_nat i)) \<and>
   sensor_regs (0x88 + of_nat H1_index_spec) = 0xA1 \<and>
   fst (read_calibration (sensor_bus 2) (0, 0) ref_calib) = Inr () \<and>
   dig_H1 (fst (snd (read_calibration (sensor_bus 2) (0, 0) ref_calib))) = 0xA0 \<and>
   dig_H1 (fst (snd (read_calibration (sensor_bus 2) (0, 0) ref_calib))) \<noteq>
     sensor_regs (0x88 + of_nat H1_index_spec)"
  unfolding read_calibration_fields [OF sensor_block_A sensor_block_B] sensor_block_A
  by (simp add: sensor_regs_def H1_index_spec_def)

section \<open>Temperature: monotonicity\<close>

subsection \<open>The 32-bit computation and its exact value\<close>

lemma sint_add_fits:
  fixes x y :: "32 word"
  shows "fits_s32 (sint x + sint y) \<Longrightarrow> sint (x + y) = sint x + sint y"
  by (simp add: sint_word_ariths signed_take_bit_int_eq_self fits_s32_def)

lemma sint_sub_fits:
  fixes x y :: "32 word"
  shows "fits_s32 (sint x - sint y) \<Longrightarrow> sint (x - y) = sint x - sint y"
  by (simp add: sint_word_ariths signed_take_bit_int_eq_self fits_s32_def)

lemma sint_mult_fits:
  fixes x y :: "32 word"
  shows "fits_s32 (sint x * sint y) \<Longrightarrow> sint (x * y) = sint x * sint y"
  by (simp add: sint_word_ariths signed_take_bit_int_eq_self fits_s32_def)

lemma sint_shift:
  fixes x :: "32 word"
  shows "sint (signed_drop_bit n x) = sint x div 2 ^ n"
  by (simp add: sint_signed_drop_bit_eq drop_bit_eq_div)

lemma sint_ucast16:
  fixes w :: "16 word"
  shows "sint (ucast w :: 32 word) = uint w"
proof -
  have "uint w < 2 ^ 16" using uint_bounded [of w] by simp
  then have "uint w < 2 ^ 31" by simp
  moreover have "- (2 ^ 31) \<le> uint w" by (rule order_trans [of _ 0]) simp_all
  ultimately have "signed_take_bit 31 (uint w) = uint w"
    by (intro signed_take_bit_int_eq_self)
  then show ?thesis by (simp add: signed_ucast_eq)
qed

lemma sint_scast16:
  fixes w :: "16 word"
  shows "sint (scast w :: 32 word) = sint w"
  by (simp add: sint_up_scast is_up)

lemma sint_twice_ucast16:
  fixes w :: "16 word"
  shows "sint (push_bit 1 (ucast w :: 32 word)) = 2 * uint w"
proof -
  have "0 \<le> uint w" and "uint w < 65536"
    using uint_bounded [of w] by simp_all
  then have "fits_s32 (uint w * 2)"
    unfolding fits_s32_def by linarith
  moreover have "sint (2 :: 32 word) = 2"
    by simp
  ultimately have "sint ((ucast w :: 32 word) * 2) = uint w * 2"
    using sint_mult_fits [of "ucast w" 2] by (simp only: sint_ucast16)
  then show ?thesis
    by (simp add: push_bit_eq_mult)
qed

lemma sint_bounds32:
  fixes x :: "32 word"
  shows "- 2147483648 \<le> sint x" "sint x < 2147483648"
  using sint_ge [of x] sint_lt [of x] by simp_all

lemma uint_bounds16:
  fixes w :: "16 word"
  shows "0 \<le> uint w" "uint w < 65536"
  using uint_bounded [of w] by simp_all

lemma compensate_T_exact:
  assumes "comp_T_fits adc_T c"
  shows "sint (t_fine (snd (compensate_T adc_T c))) =
           comp_T_tfine (sint adc_T) (uint (dig_T1 c)) (sint (dig_T2 c)) (sint (dig_T3 c))"
    and "fst (compensate_T adc_T c) =
           real_of_int ((comp_T_tfine (sint adc_T) (uint (dig_T1 c)) (sint (dig_T2 c))
             (sint (dig_T3 c)) * 5 + 128) div 256) / 100"
proof -
  define x where "x = sint adc_T"
  define T1 where "T1 = uint (dig_T1 c)"
  define T2 where "T2 = sint (dig_T2 c)"
  define T3 where "T3 = sint (dig_T3 c)"
  define tf where "tf = comp_T_tfine x T1 T2 T3"
  have f1: "fits_s32 ((x div 8 - 2 * T1) * T2)"
    and f2: "fits_s32 ((x div 16 - T1) * (x div 16 - T1))"
    and f3: "fits_s32 ((((x div 16 - T1) * (x div 16 - T1)) div 4096) * T3)"
    and f4: "fits_s32 tf"
    and f5: "fits_s32 (tf * 5)"
    and f6: "fits_s32 (tf * 5 + 128)"
    using assms unfolding comp_T_fits_def Let_def x_def T1_def T2_def T3_def tf_def by simp_all
  have xb: "- 2147483648 \<le> x" "x < 2147483648"
    unfolding x_def by (rule sint_bounds32)+
  have tb: "0 \<le> T1" "T1 < 65536"
    unfolding T1_def by (rule uint_bounds16)+
  have a8: "sint (signed_drop_bit 3 adc_T) = x div 8"
    by (simp add: sint_shift x_def)
  have a16: "sint (signed_drop_bit 4 adc_T) = x div 16"
    by (simp add: sint_shift x_def)
  have d8: "sint (signed_drop_bit 3 adc_T - push_bit 1 (ucast (dig_T1 c))) = x div 8 - 2 * T1"
  proof -
    have "fits_s32 (x div 8 - 2 * T1)"
      using xb tb unfolding fits_s32_def by linarith
    then show ?thesis
      using sint_sub_fits [of "signed_drop_bit 3 adc_T" "push_bit 1 (ucast (dig_T1 c))"]
      by (simp only: a8 sint_twice_ucast16 T1_def)
  qed
  have d16: "sint (signed_drop_bit 4 adc_T - ucast (dig_T1 c)) = x div 16 - T1"
  proof -
    have "fits_s32 (x div 16 - T1)"
      using xb tb unfolding fits_s32_def by linarith
    then show ?thesis
      using sint_sub_fits [of "signed_drop_bit 4 adc_T" "ucast (dig_T1 c)"]
      by (simp only: a16 sint_ucast16 T1_def)
  qed
  define var1 :: "32 word" where
    "var1 = signed_drop_bit 11
       ((signed_drop_bit 3 adc_T - push_bit 1 (ucast (dig_T1 c))) * scast (dig_T2 c))"
  define var2 :: "32 word" where
    "var2 = signed_drop_bit 14
      (signed_drop_bit 12
         ((signed_drop_bit 4 adc_T - ucast (dig_T1 c)) *
          (signed_drop_bit 4 adc_T - ucast (dig_T1 c))) *
       scast (dig_T3 c))"
  have v1: "sint var1 = ((x div 8 - 2 * T1) * T2) div 2048"
  proof -
    have "sint ((signed_drop_bit 3 adc_T - push_bit 1 (ucast (dig_T1 c))) * scast (dig_T2 c))
        = (x div 8 - 2 * T1) * T2"
      using f1 sint_mult_fits [of "signed_drop_bit 3 adc_T - push_bit 1 (ucast (dig_T1 c))"
          "scast (dig_T2 c)"]
      by (simp only: d8 sint_scast16 T2_def)
    then show ?thesis
      unfolding var1_def sint_shift by simp
  qed
  have v2: "sint var2 = ((((x div 16 - T1) * (x div 16 - T1)) div 4096) * T3) div 16384"
  proof -
    have "sint ((signed_drop_bit 4 adc_T - ucast (dig_T1 c)) *
          (signed_drop_bit 4 adc_T - ucast (dig_T1 c))) = (x div 16 - T1) * (x div 16 - T1)"
      using f2 sint_mult_fits [of "signed_drop_bit 4 adc_T - ucast (dig_T1 c)"
          "signed_drop_bit 4 adc_T - ucast (dig_T1 c)"]
      by (simp only: d16)
    then have "sint (signed_drop_bit 12 ((signed_drop_bit 4 adc_T - ucast (dig_T1 c)) *
          (signed_drop_bit 4 adc_T - ucast (dig_T1 c)))) =
          ((x div 16 - T1) * (x div 16 - T1)) div 4096"
      unfolding sint_shift by simp
    then have "sint (signed_drop_bit 12 ((signed_drop_bit 4 adc_T - ucast (dig_T1 c)) *
          (signed_drop_bit 4 adc_T - ucast (dig_T1 c))) * scast (dig_T3 c)) =
          (((x div 16 - T1) * (x div 16 - T1)) div 4096) * T3"
      using f3 sint_mult_fits [of "signed_drop_bit 12 ((signed_drop_bit 4 adc_T - ucast (dig_T1 c)) *
          (signed_drop_bit 4 adc_T - ucast (dig_T1 c)))" "scast (dig_T3 c)"]
      by (simp only: sint_scast16 T3_def)
    then show ?thesis
      unfolding var2_def sint_shift by simp
  qed
  have tfv: "sint (var1 + var2) = tf"
    using f4 sint_add_fits [of var1 var2]
    by (simp only: v1 v2 tf_def comp_T_tfine_def)
  have five: "sint (5 :: 32 word) = 5" and c128: "sint (128 :: 32 word) = 128"
    by simp_all
  have "sint ((var1 + var2) * 5) = tf * 5"
    using f5 sint_mult_fits [of "var1 + var2" 5] by (simp only: tfv five)
  then have "sint ((var1 + var2) * 5 + 128) = tf * 5 + 128"
    using f6 sint_add_fits [of "(var1 + var2) * 5" 128] by (simp only: c128)
  then have res: "sint (signed_drop_bit 8 ((var1 + var2) * 5 + 128)) = (tf * 5 + 128) div 256"
    unfolding sint_shift by simp
  have unf: "compensate_T adc_T c =
      (double_of_s32 (signed_drop_bit 8 ((var1 + var2) * 5 + 128)) / 100,
       c\<lparr>t_fine := var1 + var2\<rparr>)"
    by (simp add: compensate_T_def Let_def var1_def var2_def)
  show "sint (t_fine (snd (compensate_T adc_T c))) =
           comp_T_tfine (sint adc_T) (uint (dig_T1 c)) (sint (dig_T2 c)) (sint (dig_T3 c))"
    unfolding unf using tfv by (simp add: tf_def x_def T1_def T2_def T3_def)
  show "fst (compensate_T adc_T c) =
           real_of_int ((comp_T_tfine (sint adc_T) (uint (dig_T1 c)) (sint (dig_T2 c))
             (sint (dig_T3 c)) * 5 + 128) div 256) / 100"
    unfolding unf fst_conv double_of_s32_def res
    by (simp only: tf_def x_def T1_def T2_def T3_def)
qed

subsection \<open>The exact value is monotone when the linear term dominates\<close>

lemma div_shift_le:
  fixes a b N t :: int
  assumes "0 < N" and "a - N * t \<le> b"
  shows "a div N - t \<le> b div N"
proof -
  have "(a - N * t) div N \<le> b div N"
    using assms(2) assms(1) by (rule zdiv_mono1)
  moreover have "(a - N * t) div N = a div N - t"
  proof -
    have "a - N * t = a + N * (- t)" by simp
    then have "(a - N * t) div N = (a + N * (- t)) div N" by simp
    also have "\<dots> = - t + a div N"
      using assms(1) by (subst div_mult_self2) simp_all
    finally show ?thesis by simp
  qed
  ultimately show ?thesis by simp
qed

lemma div_floor_le:
  fixes a :: int
  shows "2048 * (a div 2048) \<le> a"
proof -
  have "2048 * (a div 2048) + a mod 2048 = a"
    by (rule mult_div_mod_eq)
  moreover have "0 \<le> a mod 2048"
    by simp
  ultimately show ?thesis
    by linarith
qed

lemma div_ceil_ge:
  fixes t :: int
  shows "t \<le> 512 * ((t + 511) div 512)"
proof -
  have "512 * ((t + 511) div 512) + (t + 511) mod 512 = t + 511"
    by (rule mult_div_mod_eq)
  moreover have "(t + 511) mod 512 < 512"
    by simp
  ultimately show ?thesis
    by linarith
qed

lemma half_step:
  fixes u v :: int
  assumes "u \<le> v"
  shows "v div 2 - u div 2 \<le> v - u"
  using assms by linarith

lemma sixteenth_step:
  fixes x y :: int
  assumes "x \<le> y"
  shows "y div 16 - x div 16 \<le> y div 8 - x div 8"
proof -
  have "x div 16 = x div 8 div 2" and "y div 16 = y div 8 div 2"
    by (simp_all add: div_mult2_eq [symmetric] del: div_mult2_eq)
  moreover have "x div 8 \<le> y div 8"
    using assms by (simp add: zdiv_mono1)
  ultimately show ?thesis
    using half_step [of "x div 8" "y div 8"] by simp
qed

lemma comp_T_tfine_mono:
  fixes x y T1 T2 T3 :: int
  assumes xy: "x \<le> y"
    and span: "\<bar>(x div 16 - T1) + (y div 16 - T1)\<bar> \<le> 131072"
    and dom: "(\<bar>T3\<bar> + 511) div 512 \<le> T2 div 2048"
  shows "comp_T_tfine x T1 T2 T3 \<le> comp_T_tfine y T1 T2 T3"
proof -
  define L where "L = T2 div 2048"
  define C where "C = (\<bar>T3\<bar> + 511) div 512"
  define n where "n = y div 8 - x div 8"
  define m where "m = y div 16 - x div 16"
  define d where "d = x div 16 - T1"
  define d' where "d' = y div 16 - T1"
  define p where "p = (x div 8 - 2 * T1) * T2"
  define p' where "p' = (y div 8 - 2 * T1) * T2"
  define q where "q = (d * d) div 4096"
  define q' where "q' = (d' * d') div 4096"
  have n0: "0 \<le> n"
    unfolding n_def using xy by (simp add: zdiv_mono1)
  have m0: "0 \<le> m"
    unfolding m_def using xy by (simp add: zdiv_mono1)
  have mn: "m \<le> n"
    unfolding m_def n_def using xy by (rule sixteenth_step)
  have C0: "0 \<le> C"
    unfolding C_def by (simp add: pos_imp_zdiv_nonneg_iff)
  have CL: "C \<le> L"
    unfolding C_def L_def by (rule dom)
  have T2L: "2048 * L \<le> T2"
    unfolding L_def by (rule div_floor_le)
  have TC: "\<bar>T3\<bar> \<le> 512 * C"
    unfolding C_def by (rule div_ceil_ge)
  \<comment> \<open>the linear term\<close>
  have "n * (2048 * L) \<le> n * T2"
    using T2L n0 by (rule mult_left_mono)
  moreover have "p' = p + n * T2"
    by (simp add: p_def p'_def n_def algebra_simps)
  ultimately have "p - 2048 * (- (n * L)) \<le> p'"
    by simp
  then have "p div 2048 - (- (n * L)) \<le> p' div 2048"
    by (intro div_shift_le) simp_all
  then have v1: "p div 2048 + n * L \<le> p' div 2048"
    by simp
  \<comment> \<open>the quadratic term\<close>
  have dd: "d' = d + m"
    by (simp add: d_def d'_def m_def)
  have "d' * d' - d * d = m * (d + d')"
    unfolding dd by (simp add: algebra_simps)
  moreover have "\<bar>m * (d + d')\<bar> \<le> m * 131072"
  proof -
    have "\<bar>m * (d + d')\<bar> = m * \<bar>d + d'\<bar>"
      using m0 by (simp add: abs_mult)
    also have "\<dots> \<le> m * 131072"
      using span m0 unfolding d_def d'_def by (intro mult_left_mono) simp_all
    finally show ?thesis .
  qed
  ultimately have sq: "d * d - 4096 * (32 * m) \<le> d' * d'" "d' * d' - 4096 * (32 * m) \<le> d * d"
    by linarith+
  have "q - 32 * m \<le> q'" and "q' - 32 * m \<le> q"
    unfolding q_def q'_def using sq by (intro div_shift_le; simp)+
  then have "\<bar>q' - q\<bar> \<le> 32 * m"
    by linarith
  then have "\<bar>q' - q\<bar> * \<bar>T3\<bar> \<le> (32 * m) * \<bar>T3\<bar>"
    by (intro mult_right_mono) simp_all
  also have "(32 * m) * \<bar>T3\<bar> \<le> (32 * m) * (512 * C)"
    using TC m0 by (intro mult_left_mono) simp_all
  also have "(32 * m) * (512 * C) = 16384 * (m * C)"
    by simp
  finally have "\<bar>q' - q\<bar> * \<bar>T3\<bar> \<le> 16384 * (m * C)" .
  moreover have "\<bar>q' * T3 - q * T3\<bar> = \<bar>q' - q\<bar> * \<bar>T3\<bar>"
    by (simp add: abs_mult flip: left_diff_distrib)
  ultimately have "\<bar>q' * T3 - q * T3\<bar> \<le> 16384 * (m * C)"
    by (simp only:)
  then have "q * T3 - 16384 * (m * C) \<le> q' * T3"
    by linarith
  then have v2: "(q * T3) div 16384 - m * C \<le> (q' * T3) div 16384"
    by (intro div_shift_le) simp_all
  \<comment> \<open>the sum\<close>
  have "m * C \<le> n * C"
    using mn C0 by (rule mult_right_mono)
  also have "n * C \<le> n * L"
    using CL n0 by (rule mult_left_mono)
  finally have "m * C \<le> n * L" .
  with v1 v2 have "p div 2048 + (q * T3) div 16384 \<le> p' div 2048 + (q' * T3) div 16384"
    by linarith
  then show ?thesis
    unfolding comp_T_tfine_def p_def p'_def q_def q'_def d_def d'_def .
qed

lemma fits_square_bound:
  assumes "fits_s32 (d * d)"
  shows "\<bar>d\<bar> \<le> 65536"
proof (rule ccontr)
  assume "\<not> \<bar>d\<bar> \<le> 65536"
  then have "65536 \<le> \<bar>d\<bar>" by simp
  then have "65536 * 65536 \<le> \<bar>d\<bar> * \<bar>d\<bar>"
    by (intro mult_mono) simp_all
  moreover have "\<bar>d\<bar> * \<bar>d\<bar> = d * d"
    by (simp add: abs_mult_self_eq)
  ultimately show False
    using assms unfolding fits_s32_def by simp
qed

subsection \<open>Claim C7\<close>

text \<open>
  Claim C7 as stated, for every calibration set, fails: \<^verbatim>\<open>var1\<close> is the raw value
  times T2, and a negative T2 makes the result fall as the raw value rises.  With the
  reference calibration and T2 = -26435, the raw values 519888 and 600000 give -25.23 and
  -50.69 degrees, and no operation overflows on the way.
\<close>

theorem compensate_T_not_monotone:
  "(519888 :: 32 word) \<le>s 600000 \<and>
   comp_T_fits 519888 (ref_calib\<lparr>dig_T2 := - 26435\<rparr>) \<and>
   comp_T_fits 600000 (ref_calib\<lparr>dig_T2 := - 26435\<rparr>) \<and>
   fst (compensate_T 519888 (ref_calib\<lparr>dig_T2 := - 26435\<rparr>)) = - (2523 / 100) \<and>
   fst (compensate_T 600000 (ref_calib\<lparr>dig_T2 := - 26435\<rparr>)) = - (5069 / 100) \<and>
   \<not> fst (compensate_T 519888 (ref_calib\<lparr>dig_T2 := - 26435\<rparr>)) \<le>
       fst (compensate_T 600000 (ref_calib\<lparr>dig_T2 := - 26435\<rparr>))"
  by (simp add: compensate_T_def comp_T_fits_def comp_T_tfine_def fits_s32_def ref_calib_def
      Let_def double_of_s32_def word_sle_eq)

text \<open>
  Two more ways to lose monotonicity, both with T2 non-negative: a quadratic coefficient
  T3 that outweighs T2, and a product that leaves the 32-bit range and wraps around.
\<close>

lemma compensate_T_quadratic_dip:
  "(0 :: 32 word) \<le>s 640000 \<and>
   comp_T_fits 0 (ref_calib\<lparr>dig_T1 := 40000, dig_T2 := 0, dig_T3 := 5000\<rparr>) \<and>
   comp_T_fits 640000 (ref_calib\<lparr>dig_T1 := 40000, dig_T2 := 0, dig_T3 := 5000\<rparr>) \<and>
   fst (compensate_T 0 (ref_calib\<lparr>dig_T1 := 40000, dig_T2 := 0, dig_T3 := 5000\<rparr>)) = 582 / 25 \<and>
   fst (compensate_T 640000 (ref_calib\<lparr>dig_T1 := 40000, dig_T2 := 0, dig_T3 := 5000\<rparr>)) = 0"
  by (simp add: compensate_T_def comp_T_fits_def comp_T_tfine_def fits_s32_def ref_calib_def
      Let_def double_of_s32_def word_sle_eq)

lemma compensate_T_overflow_dip:
  "(0 :: 32 word) \<le>s 1048568 \<and>
   \<not> comp_T_fits 1048568 (ref_calib\<lparr>dig_T1 := 0, dig_T2 := 32767, dig_T3 := 0\<rparr>) \<and>
   fst (compensate_T 0 (ref_calib\<lparr>dig_T1 := 0, dig_T2 := 32767, dig_T3 := 0\<rparr>)) = 0 \<and>
   fst (compensate_T 1048568 (ref_calib\<lparr>dig_T1 := 0, dig_T2 := 32767, dig_T3 := 0\<rparr>)) = - (1 / 50)"
  by (simp add: compensate_T_def comp_T_fits_def comp_T_tfine_def fits_s32_def ref_calib_def
      Let_def double_of_s32_def word_sle_eq)

lemma fits_ref: "comp_T_fits 519888 ref_calib" "comp_T_fits 600000 ref_calib"
  by (simp_all add: comp_T_fits_def comp_T_tfine_def fits_s32_def ref_calib_def Let_def)

text \<open>
  Claim C7, amended.  Let the calibration satisfy \<open>\<lceil>|T3| / 512\<rceil> \<le> \<lfloor>T2 / 2048\<rfloor>\<close> (the
  linear coefficient dominates the quadratic one; in particular T2 is not negative), and
  let \<open>a \<le> b\<close> be raw values at which no 32-bit operation of \<^verbatim>\<open>compensate_T\<close>
  overflows.  Then the temperature returned for \<open>a\<close> is at most the one returned for
  \<open>b\<close>.
\<close>

theorem compensate_T_monotone:
  assumes ab: "a \<le>s b"
    and fa: "comp_T_fits a c" and fb: "comp_T_fits b c"
    and dom: "(\<bar>sint (dig_T3 c)\<bar> + 511) div 512 \<le> sint (dig_T2 c) div 2048"
  shows "fst (compensate_T a c) \<le> fst (compensate_T b c)"
proof -
  define T1 where "T1 = uint (dig_T1 c)"
  define T2 where "T2 = sint (dig_T2 c)"
  define T3 where "T3 = sint (dig_T3 c)"
  have xy: "sint a \<le> sint b"
    using ab by (simp add: word_sle_eq)
  have "\<bar>sint a div 16 - T1\<bar> \<le> 65536"
    using fa unfolding comp_T_fits_def Let_def T1_def by (intro fits_square_bound) simp
  moreover have "\<bar>sint b div 16 - T1\<bar> \<le> 65536"
    using fb unfolding comp_T_fits_def Let_def T1_def by (intro fits_square_bound) simp
  ultimately have span: "\<bar>(sint a div 16 - T1) + (sint b div 16 - T1)\<bar> \<le> 131072"
    by linarith
  have "comp_T_tfine (sint a) T1 T2 T3 \<le> comp_T_tfine (sint b) T1 T2 T3"
    using xy span dom unfolding T2_def T3_def by (rule comp_T_tfine_mono)
  then have "(comp_T_tfine (sint a) T1 T2 T3 * 5 + 128) div 256 \<le>
             (comp_T_tfine (sint b) T1 T2 T3 * 5 + 128) div 256"
    by (intro zdiv_mono1) simp_all
  then have "real_of_int ((comp_T_tfine (sint a) T1 T2 T3 * 5 + 128) div 256) / 100 \<le>
             real_of_int ((comp_T_tfine (sint b) T1 T2 T3 * 5 + 128) div 256) / 100"
    by (simp add: divide_right_mono)
  then show ?thesis
    unfolding compensate_T_exact(2) [OF fa] compensate_T_exact(2) [OF fb] T1_def T2_def T3_def .
qed

theorem compensate_T_monotone_witness:
  "(519888 :: 32 word) \<le>s 600000 \<and> comp_T_fits 519888 ref_calib \<and> comp_T_fits 600000 ref_calib \<and>
   (\<bar>sint (dig_T3 ref_calib)\<bar> + 511) div 512 \<le> sint (dig_T2 ref_calib) div 2048 \<and>
   fst (compensate_T 519888 ref_calib) \<le> fst (compensate_T 600000 ref_calib)"
proof -
  have ab: "(519888 :: 32 word) \<le>s 600000" by simp
  have dom: "(\<bar>sint (dig_T3 ref_calib)\<bar> + 511) div 512 \<le> sint (dig_T2 ref_calib) div 2048"
    by (simp add: ref_calib_def)
  from compensate_T_monotone [OF ab fits_ref dom] ab fits_ref dom show ?thesis by blast
qed

section \<open>Pressure: the division\<close>

subsection \<open>The conversion of the result\<close>

lemma round_to_double_small: "\<bar>k\<bar> < 9007199254740992 \<Longrightarrow> round_to_double k = k"
  by (simp add: round_to_double_def Let_def)

lemma round_to_double_examples:
  "round_to_double 9007199254740993 = 9007199254740992"
  "round_to_double 9007199254740995 = 9007199254740996"
  "round_to_double (- 9007199254740993) = - 9007199254740992"
  "round_to_double 9223372036854775807 = 9223372036854775808"
  by (simp_all add: round_to_double_def Let_def)

subsection \<open>Claim C3 as stated\<close>


text \<open>The same happens with a raw value of 20 bits.\<close>

lemma compensate_P_overflow_adc20:
  "compensate_P 1048570 overflow_calib_adc20 = (Inl DivisionOverflow, overflow_calib_adc20)"
proof -
  have v: "comp_P_var1 overflow_calib_adc20 = - 1"
    by (simp add: comp_P_var1_def overflow_calib_adc20_def Let_def)
  have d: "sint (comp_P_dividend 1048570 overflow_calib_adc20) = - 9223372036854775808"
    by (simp add: comp_P_dividend_def comp_P_var2_def overflow_calib_adc20_def Let_def)
  show ?thesis
    unfolding compensate_P_unfold by (simp add: v d)
qed

subsection \<open>The division on the fine temperatures of the temperature step\<close>

lemma sint_add_fits64:
  fixes x y :: "64 word"
  shows "fits_s64 (sint x + sint y) \<Longrightarrow> sint (x + y) = sint x + sint y"
  by (simp add: sint_word_ariths signed_take_bit_int_eq_self fits_s64_def)

lemma sint_sub_fits64:
  fixes x y :: "64 word"
  shows "fits_s64 (sint x - sint y) \<Longrightarrow> sint (x - y) = sint x - sint y"
  by (simp add: sint_word_ariths signed_take_bit_int_eq_self fits_s64_def)

lemma sint_mult_fits64:
  fixes x y :: "64 word"
  shows "fits_s64 (sint x * sint y) \<Longrightarrow> sint (x * y) = sint x * sint y"
  by (simp add: sint_word_ariths signed_take_bit_int_eq_self fits_s64_def)

lemma sint_scast16_64:
  fixes w :: "16 word"
  shows "sint (scast w :: 64 word) = sint w"
  by (simp add: sint_up_scast is_up)

lemma sint_scast32_64:
  fixes w :: "32 word"
  shows "sint (scast w :: 64 word) = sint w"
  by (simp add: sint_up_scast is_up)

lemma sint_bounds16:
  fixes w :: "16 word"
  shows "\<bar>sint w\<bar> \<le> 32768"
  using sint_ge [of w] sint_lt [of w] by simp

lemma abs_mult_bound:
  fixes a b :: int
  assumes "\<bar>a\<bar> \<le> A" and "\<bar>b\<bar> \<le> B"
  shows "\<bar>a * b\<bar> \<le> A * B"
proof -
  have "\<bar>a * b\<bar> = \<bar>a\<bar> * \<bar>b\<bar>"
    by (simp add: abs_mult)
  also have "\<dots> \<le> A * B"
    using assms by (intro mult_mono) simp_all
  finally show ?thesis .
qed

lemma fits_s64_abs: "\<bar>k\<bar> < 9223372036854775808 \<Longrightarrow> fits_s64 k"
  unfolding fits_s64_def by linarith

lemma comp_P_var2_bound:
  assumes "t_fine_storable (t_fine c)"
  shows "\<bar>sint (comp_P_var2 c)\<bar> \<le> 62773627090632704"
proof -
  define v where "v = sint (t_fine c) - 128000"
  define P4 where "P4 = sint (dig_P4 c)"
  define P5 where "P5 = sint (dig_P5 c)"
  define P6 where "P6 = sint (dig_P6 c)"
  define wv :: "64 word" where "wv = scast (t_fine c) - 128000"
  have vb: "\<bar>v\<bar> \<le> 1307648"
    using assms unfolding t_fine_storable_def v_def by linarith
  have pb: "\<bar>P4\<bar> \<le> 32768" "\<bar>P5\<bar> \<le> 32768" "\<bar>P6\<bar> \<le> 32768"
    unfolding P4_def P5_def P6_def by (rule sint_bounds16)+
  have c128: "sint (128000 :: 64 word) = 128000"
    and c17: "sint (131072 :: 64 word) = 131072"
    and c35: "sint (34359738368 :: 64 word) = 34359738368"
    by simp_all
  have sv: "sint wv = v"
  proof -
    have "fits_s64 (sint (scast (t_fine c) :: 64 word) - sint (128000 :: 64 word))"
      using vb unfolding sint_scast32_64 c128 v_def by (intro fits_s64_abs) linarith
    then show ?thesis
      unfolding wv_def v_def using sint_sub_fits64 [of "scast (t_fine c)" 128000]
      by (simp only: sint_scast32_64 c128)
  qed
  have vvb: "\<bar>v * v\<bar> \<le> 1307648 * 1307648"
    using vb vb by (rule abs_mult_bound)
  have svv: "sint (wv * wv) = v * v"
    using vvb sint_mult_fits64 [of wv wv] unfolding sv by (simp add: fits_s64_abs)
  have b1: "\<bar>v * v * P6\<bar> \<le> 1307648 * 1307648 * 32768"
    using vvb pb(3) by (rule abs_mult_bound)
  have s1: "sint (wv * wv * scast (dig_P6 c)) = v * v * P6"
    using b1 sint_mult_fits64 [of "wv * wv" "scast (dig_P6 c)"]
    unfolding svv sint_scast16_64 P6_def by (simp add: fits_s64_abs)
  have b5: "\<bar>v * P5\<bar> \<le> 1307648 * 32768"
    using vb pb(2) by (rule abs_mult_bound)
  have s5: "sint (wv * scast (dig_P5 c)) = v * P5"
    using b5 sint_mult_fits64 [of wv "scast (dig_P5 c)"]
    unfolding sv sint_scast16_64 P5_def by (simp add: fits_s64_abs)
  have b2: "\<bar>v * P5 * 131072\<bar> \<le> 1307648 * 32768 * 131072"
    using b5 by (rule abs_mult_bound) simp
  have s2: "sint (push_bit 17 (wv * scast (dig_P5 c))) = v * P5 * 131072"
  proof -
    have "sint (wv * scast (dig_P5 c) * 131072) = v * P5 * 131072"
      using b2 sint_mult_fits64 [of "wv * scast (dig_P5 c)" 131072]
      unfolding s5 c17 by (simp add: fits_s64_abs)
    then show ?thesis
      by (simp add: push_bit_eq_mult)
  qed
  have b3: "\<bar>P4 * 34359738368\<bar> \<le> 32768 * 34359738368"
    using pb(1) by (rule abs_mult_bound) simp
  have s3: "sint (push_bit 35 (scast (dig_P4 c) :: 64 word)) = P4 * 34359738368"
  proof -
    have "sint ((scast (dig_P4 c) :: 64 word) * 34359738368) = P4 * 34359738368"
      using b3 sint_mult_fits64 [of "scast (dig_P4 c)" 34359738368]
      unfolding sint_scast16_64 c35 P4_def by (simp add: fits_s64_abs)
    then show ?thesis
      by (simp add: push_bit_eq_mult)
  qed
  have b12: "\<bar>v * v * P6 + v * P5 * 131072\<bar> \<le> 1307648 * 1307648 * 32768 + 1307648 * 32768 * 131072"
    using b1 b2 by linarith
  have s12: "sint (wv * wv * scast (dig_P6 c) + push_bit 17 (wv * scast (dig_P5 c))) =
      v * v * P6 + v * P5 * 131072"
    using b12 sint_add_fits64 [of "wv * wv * scast (dig_P6 c)" "push_bit 17 (wv * scast (dig_P5 c))"]
    unfolding s1 s2 by (simp add: fits_s64_abs)
  have b123: "\<bar>v * v * P6 + v * P5 * 131072 + P4 * 34359738368\<bar> \<le>
      1307648 * 1307648 * 32768 + 1307648 * 32768 * 131072 + 32768 * 34359738368"
    using b12 b3 by linarith
  have s123: "sint (wv * wv * scast (dig_P6 c) + push_bit 17 (wv * scast (dig_P5 c)) +
        push_bit 35 (scast (dig_P4 c))) = v * v * P6 + v * P5 * 131072 + P4 * 34359738368"
    using b123 sint_add_fits64 [of "wv * wv * scast (dig_P6 c) + push_bit 17 (wv * scast (dig_P5 c))"
        "push_bit 35 (scast (dig_P4 c))"]
    unfolding s12 s3 by (simp add: fits_s64_abs)
  have "comp_P_var2 c = wv * wv * scast (dig_P6 c) + push_bit 17 (wv * scast (dig_P5 c)) +
        push_bit 35 (scast (dig_P4 c))"
    by (simp add: comp_P_var2_def Let_def wv_def)
  then show ?thesis
    using b123 unfolding s123 [symmetric] by simp
qed


lemma sint_bounds32_abs:
  fixes w :: "32 word"
  shows "\<bar>sint w\<bar> \<le> 2147483648"
  using sint_ge [of w] sint_lt [of w] by simp

lemma odd_factor_min:
  fixes x :: "64 word"
  assumes "sint (x * 3125) = - 9223372036854775808"
  shows "sint x = - 9223372036854775808"
proof -
  have inv: "(3125 :: 64 word) * 6723469279985657373 = 1"
    by simp
  have "x * 3125 = word_of_int (sint (x * 3125))"
    by simp
  then have m: "x * 3125 = 9223372036854775808"
    unfolding assms by simp
  have "x * 3125 * 6723469279985657373 = x * (3125 * 6723469279985657373)"
    by (simp only: mult.assoc)
  also have "\<dots> = x"
    by (simp only: inv mult_1_right)
  finally have "x = 9223372036854775808 * 6723469279985657373"
    unfolding m by simp
  then have "x = 9223372036854775808"
    by simp
  then show ?thesis
    by simp
qed

lemma comp_P_dividend_not_min:
  assumes "t_fine_storable (t_fine c)"
  shows "sint (comp_P_dividend adc_P c) \<noteq> - 9223372036854775808"
proof
  assume min: "sint (comp_P_dividend adc_P c) = - 9223372036854775808"
  define q :: "32 word" where "q = 1048576 - adc_P"
  define x :: "64 word" where "x = push_bit 31 (scast q) - comp_P_var2 c"
  have d: "comp_P_dividend adc_P c = x * 3125"
    by (simp add: comp_P_dividend_def Let_def x_def q_def)
  have qb: "\<bar>sint q\<bar> \<le> 2147483648"
    by (rule sint_bounds32_abs)
  have c31: "sint (2147483648 :: 64 word) = 2147483648"
    by simp
  have pb: "\<bar>sint q * 2147483648\<bar> \<le> 2147483648 * 2147483648"
    using qb by (rule abs_mult_bound) simp
  have sp: "sint (push_bit 31 (scast q :: 64 word)) = sint q * 2147483648"
  proof -
    have "sint ((scast q :: 64 word) * 2147483648) = sint q * 2147483648"
      using pb sint_mult_fits64 [of "scast q" 2147483648]
      unfolding sint_scast32_64 c31 by (simp add: fits_s64_abs)
    then show ?thesis
      by (simp add: push_bit_eq_mult)
  qed
  have vb: "\<bar>sint (comp_P_var2 c)\<bar> \<le> 62773627090632704"
    using assms by (rule comp_P_var2_bound)
  have xb: "\<bar>sint q * 2147483648 - sint (comp_P_var2 c)\<bar> < 9223372036854775808"
    using pb vb by linarith
  then have "sint x = sint q * 2147483648 - sint (comp_P_var2 c)"
    unfolding x_def using sint_sub_fits64 [of "push_bit 31 (scast q)" "comp_P_var2 c"]
    by (simp only: sp fits_s64_abs)
  with xb have "sint x \<noteq> - 9223372036854775808"
    by linarith
  moreover have "sint x = - 9223372036854775808"
    using min unfolding d by (rule odd_factor_min)
  ultimately show False
    by contradiction
qed

lemma compensate_T_storable:
  "t_fine_storable (t_fine (snd (compensate_T adc_T c)))"
proof -
  obtain X Y :: "32 word" where
    t: "t_fine (snd (compensate_T adc_T c)) = signed_drop_bit 11 X + signed_drop_bit 14 Y"
    by (simp add: compensate_T_def Let_def)
  have x: "sint (signed_drop_bit 11 X) = sint X div 2048"
    and y: "sint (signed_drop_bit 14 Y) = sint Y div 16384"
    by (simp_all add: sint_signed_drop_bit_eq drop_bit_eq_div)
  have xb: "- 1048576 \<le> sint X div 2048" "sint X div 2048 < 1048576"
    using sint_ge [of X] sint_lt [of X] by simp_all
  have yb: "- 131072 \<le> sint Y div 16384" "sint Y div 16384 < 131072"
    using sint_ge [of Y] sint_lt [of Y] by simp_all
  have "fits_s32 (sint (signed_drop_bit 11 X) + sint (signed_drop_bit 14 Y))"
    unfolding x y fits_s32_def using xb yb by linarith
  then have "sint (signed_drop_bit 11 X + signed_drop_bit 14 Y) =
      sint X div 2048 + sint Y div 16384"
    using sint_word_ariths(1) [of "signed_drop_bit 11 X" "signed_drop_bit 14 Y"]
    unfolding x y fits_s32_def by (simp add: signed_take_bit_int_eq_self)
  then show ?thesis
    unfolding t t_fine_storable_def using xb yb by linarith
qed



text \<open>
  \<^verbatim>\<open>compensate_T\<close> stores such a fine temperature whatever its input, so that the
  pressure step after the temperature step never stops at a fault.
\<close>

lemma compensate_P_after_T:
  "fst (compensate_P adc_P (snd (compensate_T adc_T c))) \<noteq> Inl DivisionByZero \<and>
   fst (compensate_P adc_P (snd (compensate_T adc_T c))) \<noteq> Inl DivisionOverflow"
  using comp_P_dividend_not_min [OF compensate_T_storable [of adc_T c], of adc_P]
  by (simp add: compensate_P_unfold)

end
